theory Spec2Isabelle
  imports Main
begin

section \<open>Python strings\<close>

text \<open>
  A Python \<open>str\<close> is a sequence of Unicode code points, so a string is a list of
  natural numbers and \<open>len\<close> is \<open>length\<close>. String literals of the source are
  written \<open>u ''...''\<close>; the bullet of the skills section (U+2022) is the code point 8226.
  Whitespace is the set \<open>str.isspace\<close> accepts, which is also what \<open>\s\<close> matches in
  a \<open>str\<close> pattern. Letter case is modelled for the letters A-Z and a-z; every other
  code point is taken to be caseless.
\<close>

type_synonym ustr = "nat list"

definition u :: "string \<Rightarrow> ustr" where
  "u s = map of_char s"

definition nl :: nat where
  "nl = 10"

definition bullet :: nat where
  "bullet = 8226"

definition isspace :: "nat \<Rightarrow> bool" where
  "isspace c \<longleftrightarrow>
     (9 \<le> c \<and> c \<le> 13) \<or> (28 \<le> c \<and> c \<le> 32) \<or> c = 133 \<or> c = 160 \<or> c = 5760 \<or>
     (8192 \<le> c \<and> c \<le> 8202) \<or> c = 8232 \<or> c = 8233 \<or> c = 8239 \<or> c = 8287 \<or> c = 12288"

definition is_upper_chr :: "nat \<Rightarrow> bool" where
  "is_upper_chr c \<longleftrightarrow> 65 \<le> c \<and> c \<le> 90"

definition is_lower_chr :: "nat \<Rightarrow> bool" where
  "is_lower_chr c \<longleftrightarrow> 97 \<le> c \<and> c \<le> 122"

definition lower_chr :: "nat \<Rightarrow> nat" where
  "lower_chr c = (if is_upper_chr c then c + 32 else c)"

definition upper_chr :: "nat \<Rightarrow> nat" where
  "upper_chr c = (if is_lower_chr c then c - 32 else c)"

definition lower :: "ustr \<Rightarrow> ustr" where
  "lower s = map lower_chr s"

text \<open>\<open>str.isupper\<close>: at least one cased character and no lower-case one.\<close>

definition isupper :: "ustr \<Rightarrow> bool" where
  "isupper s \<longleftrightarrow> list_ex is_upper_chr s \<and> \<not> list_ex is_lower_chr s"

text \<open>
  \<open>str.title\<close>: a cased character is upper-cased when the character before it is
  not cased, and lower-cased otherwise.
\<close>

fun title_from :: "bool \<Rightarrow> ustr \<Rightarrow> ustr" where
  "title_from prev [] = []"
| "title_from prev (c # cs) =
     (if is_upper_chr c \<or> is_lower_chr c
      then (if prev then lower_chr c else upper_chr c) # title_from True cs
      else c # title_from False cs)"

definition title :: "ustr \<Rightarrow> ustr" where
  "title s = title_from False s"

definition lstrip :: "ustr \<Rightarrow> ustr" where
  "lstrip s = dropWhile isspace s"

definition rstrip :: "ustr \<Rightarrow> ustr" where
  "rstrip s = rev (dropWhile isspace (rev s))"

definition strip :: "ustr \<Rightarrow> ustr" where
  "strip s = rstrip (lstrip s)"

text \<open>\<open>s.split(c)\<close> for a one-character separator: never the empty list.\<close>

fun split_chr :: "nat \<Rightarrow> ustr \<Rightarrow> ustr list" where
  "split_chr c [] = [[]]"
| "split_chr c (x # xs) =
     (if x = c then [] # split_chr c xs
      else (case split_chr c xs of [] \<Rightarrow> [[x]] | piece # pieces \<Rightarrow> (x # piece) # pieces))"

fun join :: "ustr \<Rightarrow> ustr list \<Rightarrow> ustr" where
  "join sep [] = []"
| "join sep [x] = x"
| "join sep (x # y # ys) = x @ sep @ join sep (y # ys)"

definition startswith :: "ustr \<Rightarrow> ustr \<Rightarrow> bool" where
  "startswith s p \<longleftrightarrow> take (length p) s = p"

definition endswith :: "ustr \<Rightarrow> ustr \<Rightarrow> bool" where
  "endswith s p \<longleftrightarrow> length p \<le> length s \<and> drop (length s - length p) s = p"

definition replace_chr :: "nat \<Rightarrow> nat \<Rightarrow> ustr \<Rightarrow> ustr" where
  "replace_chr a b s = map (\<lambda>c. if c = a then b else c) s"

section \<open>Python dictionaries\<close>

text \<open>
  A \<open>dict\<close> keeps its keys in insertion order; assigning to a key that is present
  replaces the value in place.
\<close>

type_synonym sections = "(ustr \<times> ustr) list"

fun dict_set :: "ustr \<Rightarrow> ustr \<Rightarrow> sections \<Rightarrow> sections" where
  "dict_set k v [] = [(k, v)]"
| "dict_set k v ((k', v') # m) =
     (if k' = k then (k', v) # m else (k', v') # dict_set k v m)"

definition keys :: "sections \<Rightarrow> ustr list" where
  "keys m = map fst m"

section \<open>Regular expressions\<close>

text \<open>
  The patterns of \<open>SECTION_PATTERNS\<close> use character classes, greedy repetition of a
  class, sequencing, alternation and one capturing group. \<open>run r s\<close> lists the
  ways \<open>r\<close> matches a prefix of \<open>s\<close> in the order a backtracking matcher tries
  them, each with the text of the group (if set) and the rest of the input;
  \<open>re.match\<close> takes the first. All matching ignores case (\<open>re.IGNORECASE\<close>).
\<close>

datatype cls = Hash | Space | AnyChr | Lit nat

datatype re = Eps | One cls | Star cls | Plus cls | Opt cls
  | Seq re re | Alt re re | Grp re

fun cmatch :: "cls \<Rightarrow> nat \<Rightarrow> bool" where
  "cmatch Hash x = (x = 35)"
| "cmatch Space x = isspace x"
| "cmatch AnyChr x = (x \<noteq> 10)"
| "cmatch (Lit c) x = (lower_chr x = lower_chr c)"

fun run :: "re \<Rightarrow> ustr \<Rightarrow> (ustr option \<times> ustr) list" where
  "run Eps s = [(None, s)]"
| "run (One c) s = (case s of [] \<Rightarrow> [] | x # xs \<Rightarrow> if cmatch c x then [(None, xs)] else [])"
| "run (Star c) s =
     map (\<lambda>i. (None, drop i s)) (rev [0 ..< Suc (length (takeWhile (cmatch c) s))])"
| "run (Plus c) s =
     map (\<lambda>i. (None, drop i s)) (rev [1 ..< Suc (length (takeWhile (cmatch c) s))])"
| "run (Opt c) s =
     (case s of [] \<Rightarrow> [(None, s)]
      | x # xs \<Rightarrow> if cmatch c x then [(None, xs), (None, s)] else [(None, s)])"
| "run (Seq a b) s =
     concat (map (\<lambda>(g1, s1). map (\<lambda>(g2, s2). (if g2 = None then g1 else g2, s2)) (run b s1))
                 (run a s))"
| "run (Alt a b) s = run a s @ run b s"
| "run (Grp r) s =
     map (\<lambda>(g, s'). (Some (take (length s - length s') s), s')) (run r s)"

definition re_match :: "re \<Rightarrow> ustr \<Rightarrow> ustr option option" where
  "re_match r s = (case run r s of [] \<Rightarrow> None | (g, s') # rest \<Rightarrow> Some g)"

text \<open>Literal text, and the alternation of a non-empty list of patterns.\<close>

definition word :: "string \<Rightarrow> re" where
  "word w = foldr (\<lambda>c r. Seq (One (Lit (of_char c))) r) w Eps"

fun alts :: "re list \<Rightarrow> re" where
  "alts [] = Eps"
| "alts [r] = r"
| "alts (r # rs) = Alt r (alts rs)"

text \<open>\<open>^#+\s*(...)\<close>: the prefix every pattern of the table shares.\<close>

definition hdr :: "re list \<Rightarrow> re" where
  "hdr as = Seq (Plus Hash) (Seq (Star Space) (Grp (alts as)))"

text \<open>\<open>a\s+b\<close> and \<open>as?\<close>.\<close>

definition two :: "string \<Rightarrow> string \<Rightarrow> re" where
  "two a b = Seq (word a) (Seq (Plus Space) (word b))"

definition plural :: "string \<Rightarrow> re" where
  "plural a = Seq (word a) (Opt (Lit 115))"

section \<open>The parser\<close>

definition SECTION_PATTERNS :: "re list" where
  "SECTION_PATTERNS =
    [hdr [word ''summary'', word ''profile'', word ''objective''],
     hdr [word ''experience'', two ''work'' ''experience'', word ''employment''],
     hdr [word ''education'', two ''academic'' ''background''],
     hdr [word ''skills'', two ''technical'' ''skills'', two ''core'' ''competencies''],
     hdr [word ''projects'', two ''notable'' ''projects''],
     hdr [plural ''certification'', plural ''license''],
     hdr [plural ''award'', plural ''achievement'', plural ''honor''],
     hdr [word ''contact'', two ''contact'' ''information''],
     hdr [plural ''language''],
     hdr [plural ''publication''],
     hdr [plural ''reference''],
     hdr [Plus AnyChr]]"

definition mappings :: "(ustr \<times> ustr) list" where
  "mappings =
    [(u ''summary'', u ''summary''),
     (u ''profile'', u ''summary''),
     (u ''objective'', u ''summary''),
     (u ''professional summary'', u ''summary''),
     (u ''experience'', u ''experience''),
     (u ''work experience'', u ''experience''),
     (u ''employment'', u ''experience''),
     (u ''professional experience'', u ''experience''),
     (u ''education'', u ''education''),
     (u ''academic background'', u ''education''),
     (u ''skills'', u ''skills''),
     (u ''technical skills'', u ''skills''),
     (u ''core competencies'', u ''skills''),
     (u ''projects'', u ''projects''),
     (u ''notable projects'', u ''projects''),
     (u ''certifications'', u ''certifications''),
     (u ''certification'', u ''certifications''),
     (u ''licenses'', u ''certifications''),
     (u ''license'', u ''certifications''),
     (u ''awards'', u ''awards''),
     (u ''award'', u ''awards''),
     (u ''achievements'', u ''awards''),
     (u ''achievement'', u ''awards''),
     (u ''honors'', u ''awards''),
     (u ''honor'', u ''awards''),
     (u ''contact'', u ''contact''),
     (u ''contact information'', u ''contact''),
     (u ''languages'', u ''languages''),
     (u ''language'', u ''languages''),
     (u ''publications'', u ''publications''),
     (u ''publication'', u ''publications''),
     (u ''references'', u ''references''),
     (u ''reference'', u ''references'')]"

definition normalize_section_name :: "ustr \<Rightarrow> ustr" where
  "normalize_section_name name =
     (let name = strip (lower name) in
      case map_of mappings name of Some v \<Rightarrow> v | None \<Rightarrow> name)"

text \<open>
  The loop over the patterns. Every pattern has one group, so \<open>match.groups()\<close>
  is a non-empty tuple and the branch for patterns without a group is never taken;
  a group that did not take part in the match would make \<open>match.group(1)\<close> be
  \<open>None\<close>, which no pattern of the table allows (the group is not optional).
\<close>

fun first_match :: "re list \<Rightarrow> ustr \<Rightarrow> ustr option" where
  "first_match [] line = None"
| "first_match (p # ps) line =
     (case re_match p line of
        None \<Rightarrow> first_match ps line
      | Some g \<Rightarrow> Some (normalize_section_name (strip (case g of Some t \<Rightarrow> t | None \<Rightarrow> []))))"

definition extract_section_name :: "ustr \<Rightarrow> ustr option" where
  "extract_section_name line = first_match SECTION_PATTERNS (strip line)"

record pstate =
  sections :: sections
  current_section :: "ustr option"
  current_content :: "ustr list"
  header_found :: bool

text \<open>\<open>if current_section and current_content: sections[current_section] = ...\<close>\<close>

definition commit :: "pstate \<Rightarrow> sections" where
  "commit st =
     (case current_section st of
        None \<Rightarrow> sections st
      | Some name \<Rightarrow>
          if name \<noteq> [] \<and> current_content st \<noteq> []
          then dict_set name (strip (join [nl] (current_content st))) (sections st)
          else sections st)"

definition is_header :: "ustr \<Rightarrow> bool" where
  "is_header line \<longleftrightarrow> (case extract_section_name line of None \<Rightarrow> False | Some n \<Rightarrow> n \<noteq> [])"

definition parse_line :: "pstate \<Rightarrow> ustr \<Rightarrow> pstate" where
  "parse_line st line =
     (if is_header line
      then \<lparr>sections = commit st,
            current_section = extract_section_name line,
            current_content = [],
            header_found = True\<rparr>
      else if header_found st
      then st\<lparr>current_content := current_content st @ [line]\<rparr>
      else (let st' = (if current_section st = None
                       then st\<lparr>current_section := Some (u ''header''), current_content := []\<rparr>
                       else st)
            in st'\<lparr>current_content := current_content st' @ [line]\<rparr>))"

definition init_state :: pstate where
  "init_state = \<lparr>sections = [], current_section = None, current_content = [],
                  header_found = False\<rparr>"

definition parse_markdown_content :: "ustr \<Rightarrow> sections" where
  "parse_markdown_content content =
     filter (\<lambda>(k, v). strip v \<noteq> [])
       (commit (foldl parse_line init_state (split_chr nl content)))"

text \<open>
  Reading a file: a path is absent, or it is there and reading it as UTF-8 text either
  raises or gives the text.
\<close>

datatype read_result = Unreadable | Text ustr

datatype error = FileNotFoundError | ValueError | KeyError

definition parse_markdown_file :: "('p \<Rightarrow> read_result option) \<Rightarrow> 'p \<Rightarrow> error + sections" where
  "parse_markdown_file fs file_path =
     (case fs file_path of
        None \<Rightarrow> Inl FileNotFoundError
      | Some Unreadable \<Rightarrow> Inl ValueError
      | Some (Text content) \<Rightarrow>
          if strip content = [] then Inl ValueError
          else Inr (parse_markdown_content content))"

section \<open>The formatter\<close>

definition DEFAULT_SECTION_ORDER :: "ustr list" where
  "DEFAULT_SECTION_ORDER =
    [u ''header'', u ''contact'', u ''summary'', u ''experience'', u ''education'',
     u ''skills'', u ''projects'', u ''certifications'', u ''awards'', u ''languages'',
     u ''publications'', u ''references'']"

text \<open>The two loops of \<open>_get_section_order\<close>; the template is not looked at.\<close>

definition add_missing :: "ustr list \<Rightarrow> ustr \<Rightarrow> ustr list" where
  "add_missing ordered section = (if section \<notin> set ordered then ordered @ [section] else ordered)"

definition get_section_order :: "sections \<Rightarrow> ustr \<Rightarrow> ustr list" where
  "get_section_order secs template =
     foldl add_missing
       (foldl (\<lambda>ordered section. if section \<in> set (keys secs) then ordered @ [section] else ordered)
          [] DEFAULT_SECTION_ORDER)
       (keys secs)"

text \<open>The first line that is not blank becomes the heading.\<close>

fun header_of_lines :: "ustr list \<Rightarrow> ustr" where
  "header_of_lines [] = u ''# Resume''"
| "header_of_lines (line # lines) =
     (if strip line \<noteq> [] then u ''# '' @ strip line else header_of_lines lines)"

definition format_header_section :: "ustr \<Rightarrow> ustr" where
  "format_header_section content = header_of_lines (split_chr nl (strip content))"

definition format_contact_section :: "ustr \<Rightarrow> ustr" where
  "format_contact_section content =
     (let cleaned_content = strip content in
      if cleaned_content = [] then [] else u ''## Contact'' @ [nl, nl] @ cleaned_content)"

definition format_summary_section :: "ustr \<Rightarrow> ustr" where
  "format_summary_section content =
     (let cleaned_content = strip content in
      if cleaned_content = [] then []
      else u ''## Professional Summary'' @ [nl, nl] @ cleaned_content)"

text \<open>The body of the loop of \<open>_format_experience_section\<close>: what one line becomes.\<close>

definition experience_line :: "ustr \<Rightarrow> ustr" where
  "experience_line line0 =
     (let line = strip line0 in
      if line = [] then []
      else if \<not> (startswith line (u ''-'') \<or> startswith line (u ''*'') \<or>
                   startswith line (u ''#'') \<or> startswith line (u ''**''))
              \<and> \<not> endswith line (u '':'')
      then (if line \<noteq> [] \<and> \<not> isupper line then u ''- '' @ line else line)
      else line)"

definition format_experience_section :: "ustr \<Rightarrow> ustr" where
  "format_experience_section content =
     (let cleaned_content = strip content in
      if cleaned_content = [] then []
      else u ''## Experience'' @ [nl, nl] @
           join [nl] (foldl (\<lambda>formatted_lines line. formatted_lines @ [experience_line line])
                        [] (split_chr nl cleaned_content)))"

definition bullet_sep :: ustr where
  "bullet_sep = [32, bullet, 32]"

definition bullet_line :: "ustr list \<Rightarrow> ustr" where
  "bullet_line current_line = u ''- '' @ join bullet_sep current_line"

text \<open>
  The packing loop of \<open>_format_skills_section\<close> with its three variables, and
  the flush of the last line after the loop.
\<close>

fun pack_skills :: "ustr list \<Rightarrow> ustr list \<Rightarrow> ustr list \<Rightarrow> nat \<Rightarrow> ustr list" where
  "pack_skills [] formatted_skills current_line current_length =
     (if current_line \<noteq> [] then formatted_skills @ [bullet_line current_line]
      else formatted_skills)"
| "pack_skills (skill # skills) formatted_skills current_line current_length =
     (if current_length + length skill > 60 \<and> current_line \<noteq> []
      then pack_skills skills (formatted_skills @ [bullet_line current_line])
             [skill] (length skill)
      else pack_skills skills formatted_skills (current_line @ [skill])
             (current_length + length skill + 3))"

definition format_skills_section :: "ustr \<Rightarrow> ustr" where
  "format_skills_section content =
     (let cleaned_content = strip content in
      if cleaned_content = [] then []
      else u ''## Skills'' @ [nl, nl] @
        (if 44 \<in> set cleaned_content \<and> nl \<notin> set cleaned_content
         then join [nl]
                (pack_skills (filter (\<lambda>skill. skill \<noteq> [])
                                (map strip (split_chr 44 cleaned_content))) [] [] 0)
         else cleaned_content))"

definition format_generic_section :: "ustr \<Rightarrow> ustr \<Rightarrow> ustr" where
  "format_generic_section section_name content =
     (let cleaned_content = strip content in
      if cleaned_content = [] then []
      else u ''## '' @ title (replace_chr 95 32 section_name) @ [nl, nl] @ cleaned_content)"

definition format_section :: "ustr \<Rightarrow> ustr \<Rightarrow> ustr \<Rightarrow> ustr" where
  "format_section section_name content template =
     (if strip content = [] then []
      else if section_name = u ''header'' then format_header_section content
      else if section_name = u ''contact'' then format_contact_section content
      else if section_name = u ''summary'' then format_summary_section content
      else if section_name = u ''experience'' then format_experience_section content
      else if section_name = u ''skills'' then format_skills_section content
      else format_generic_section section_name content)"

text \<open>
  The loop of \<open>format_resume\<close>: a name of the order that is a key of the
  dictionary contributes its block unless the block is empty. The subscript
  \<open>sections[section_name]\<close> raises \<open>KeyError\<close> for a key that is absent.
\<close>

definition subscript :: "sections \<Rightarrow> ustr \<Rightarrow> error + ustr" where
  "subscript secs k = (case map_of secs k of None \<Rightarrow> Inl KeyError | Some v \<Rightarrow> Inr v)"

definition add_part :: "sections \<Rightarrow> ustr \<Rightarrow> error + ustr list \<Rightarrow> ustr \<Rightarrow> error + ustr list" where
  "add_part secs template acc section_name =
     (case acc of
        Inl e \<Rightarrow> Inl e
      | Inr formatted_parts \<Rightarrow>
          if section_name \<in> set (keys secs)
          then (case subscript secs section_name of
                  Inl e \<Rightarrow> Inl e
                | Inr content \<Rightarrow>
                    (let formatted_section = format_section section_name content template in
                     if formatted_section \<noteq> [] then Inr (formatted_parts @ [formatted_section])
                     else Inr formatted_parts))
          else Inr formatted_parts)"

definition format_resume :: "sections \<Rightarrow> ustr \<Rightarrow> error + ustr" where
  "format_resume secs template =
     (if secs = [] then Inr (u ''# Resume'' @ [nl, nl] @ u ''*No content available*'')
      else (case foldl (add_part secs template) (Inr []) (get_section_order secs template) of
              Inl e \<Rightarrow> Inl e
            | Inr formatted_parts \<Rightarrow> Inr (join [nl, nl] formatted_parts)))"

section \<open>Notions used to state the properties\<close>

text \<open>The block a key of the dictionary contributes to the document.\<close>

definition block :: "sections \<Rightarrow> ustr \<Rightarrow> ustr \<Rightarrow> ustr" where
  "block secs template k = format_section k (the (map_of secs k)) template"

section \<open>Lists, strings and loops\<close>

lemma isspace_simps [simp]:
  "\<not> isspace 35" "isspace 32" "isspace 10" "\<not> isspace 45" "\<not> isspace 8226"
  by (simp_all add: isspace_def)

lemma lstrip_Nil [simp]: "lstrip [] = []" by (simp add: lstrip_def)
lemma rstrip_Nil [simp]: "rstrip [] = []" by (simp add: rstrip_def)
lemma strip_Nil [simp]: "strip [] = []" by (simp add: strip_def)

lemma rstrip_eq_Nil: "rstrip s = [] \<longleftrightarrow> list_all isspace s"
  by (auto simp add: rstrip_def dropWhile_eq_Nil_conv list_all_iff)

lemma lstrip_eq_Nil: "lstrip s = [] \<longleftrightarrow> list_all isspace s"
  by (auto simp add: lstrip_def dropWhile_eq_Nil_conv list_all_iff)

lemma rstrip_append_nonspace:
  "a \<noteq> [] \<Longrightarrow> \<not> isspace (last a) \<Longrightarrow> rstrip (a @ b) = (if list_all isspace b then a else a @ rstrip b)"
  apply (simp add: rstrip_def dropWhile_append list_all_iff)
  apply (cases a rule: rev_cases)
   apply auto
  done

lemma rstrip_id: "s \<noteq> [] \<Longrightarrow> \<not> isspace (last s) \<Longrightarrow> rstrip s = s"
  using rstrip_append_nonspace [of s "[]"] by simp

lemma lstrip_id: "s \<noteq> [] \<Longrightarrow> \<not> isspace (hd s) \<Longrightarrow> lstrip s = s"
  by (cases s) (simp_all add: lstrip_def)

lemma lstrip_hd: "lstrip s \<noteq> [] \<Longrightarrow> \<not> isspace (hd (lstrip s))"
  unfolding lstrip_def using hd_dropWhile by blast

lemma rstrip_last: "rstrip s \<noteq> [] \<Longrightarrow> \<not> isspace (last (rstrip s))"
  unfolding rstrip_def using hd_dropWhile [of isspace "rev s"] by (simp add: last_rev)

lemma rstrip_prefix: "\<exists>w. s = rstrip s @ w \<and> list_all isspace w"
proof -
  have "rev s = takeWhile isspace (rev s) @ dropWhile isspace (rev s)" by simp
  then have "s = rev (dropWhile isspace (rev s)) @ rev (takeWhile isspace (rev s))"
    by (metis rev_append rev_rev_ident)
  moreover have "list_all isspace (rev (takeWhile isspace (rev s)))"
    by (simp add: list_all_iff) (meson set_takeWhileD)
  ultimately show ?thesis unfolding rstrip_def by blast
qed

lemma lstrip_suffix: "\<exists>w. s = w @ lstrip s \<and> list_all isspace w"
proof -
  have "s = takeWhile isspace s @ dropWhile isspace s" by simp
  moreover have "list_all isspace (takeWhile isspace s)"
    by (simp add: list_all_iff) (meson set_takeWhileD)
  ultimately show ?thesis unfolding lstrip_def by blast
qed

lemma rstrip_hd: "rstrip s \<noteq> [] \<Longrightarrow> hd (rstrip s) = hd s"
  using rstrip_prefix [of s] by (metis hd_append2)

lemma strip_eq_Nil: "strip s = [] \<longleftrightarrow> list_all isspace s"
proof
  assume "strip s = []"
  then have "list_all isspace (lstrip s)" by (simp add: strip_def rstrip_eq_Nil)
  then show "list_all isspace s" using lstrip_suffix [of s] by (metis list_all_append)
next
  assume "list_all isspace s"
  then show "strip s = []" by (simp add: strip_def lstrip_eq_Nil [THEN iffD2])
qed

lemma strip_hd: "strip s \<noteq> [] \<Longrightarrow> \<not> isspace (hd (strip s))"
  unfolding strip_def using rstrip_hd lstrip_hd by (metis rstrip_Nil)

lemma strip_last: "strip s \<noteq> [] \<Longrightarrow> \<not> isspace (last (strip s))"
  unfolding strip_def using rstrip_last by blast

lemma strip_id: "s \<noteq> [] \<Longrightarrow> \<not> isspace (hd s) \<Longrightarrow> \<not> isspace (last s) \<Longrightarrow> strip s = s"
  by (simp add: strip_def lstrip_id rstrip_id)

lemma strip_strip [simp]: "strip (strip s) = strip s"
  by (cases "strip s = []") (simp_all add: strip_id strip_hd strip_last)

lemma split_chr_nonempty [simp]: "split_chr c s \<noteq> []"
  by (induction s) (simp_all split: list.splits)

lemma join_split_chr [simp]: "join [c] (split_chr c s) = s"
proof (induction s)
  case Nil
  then show ?case by simp
next
  case (Cons x xs)
  obtain l ls where l: "split_chr c xs = l # ls" by (cases "split_chr c xs") simp_all
  show ?case using Cons l by (cases ls) auto
qed

lemma split_chr_no_sep: "l \<in> set (split_chr c s) \<Longrightarrow> c \<notin> set l"
proof (induction s arbitrary: l)
  case Nil
  then show ?case by simp
next
  case (Cons x xs)
  obtain l' ls where l: "split_chr c xs = l' # ls" by (cases "split_chr c xs") simp_all
  show ?case using Cons l by (auto split: if_splits)
qed

lemma split_chr_no_occurrence: "c \<notin> set s \<Longrightarrow> split_chr c s = [s]"
  by (induction s) auto

lemma split_chr_append:
  "c \<notin> set a \<Longrightarrow> split_chr c (a @ c # b) = a # split_chr c b"
  by (induction a) auto

lemma split_chr_join:
  "ls \<noteq> [] \<Longrightarrow> \<forall>l \<in> set ls. c \<notin> set l \<Longrightarrow> split_chr c (join [c] ls) = ls"
proof (induction ls)
  case Nil
  then show ?case by simp
next
  case (Cons x xs)
  then show ?case
    by (cases xs) (simp_all add: split_chr_no_occurrence split_chr_append)
qed

section \<open>The formatter: order of the sections and totality\<close>

lemma foldl_snoc_map: "foldl (\<lambda>acc x. acc @ [f x]) acc xs = acc @ map f xs"
  by (induction xs arbitrary: acc) simp_all







lemma map_of_keys: "k \<in> set (keys secs) \<Longrightarrow> \<exists>v. map_of secs k = Some v"
  by (induction secs) (auto simp add: keys_def)

lemma foldl_add_part:
  "foldl (add_part secs t) (Inr acc) ks =
     Inr (acc @ filter (\<lambda>b. b \<noteq> [])
                  (map (block secs t) (filter (\<lambda>k. k \<in> set (keys secs)) ks)))"
proof (induction ks arbitrary: acc)
  case Nil
  then show ?case by simp
next
  case (Cons k ks)
  show ?case
  proof (cases "k \<in> set (keys secs)")
    case True
    then obtain v where v: "map_of secs k = Some v" using map_of_keys by blast
    show ?thesis using True v Cons.IH
      by (simp add: add_part_def subscript_def block_def Let_def)
  next
    case False
    then show ?thesis using Cons.IH by (simp add: add_part_def)
  qed
qed

lemma format_resume_blocks:
  assumes "secs \<noteq> []"
  shows "format_resume secs t =
           Inr (join [nl, nl] (filter (\<lambda>b. b \<noteq> [])
                  (map (block secs t)
                     (filter (\<lambda>k. k \<in> set (keys secs)) (get_section_order secs t)))))"
  using assms by (simp add: format_resume_def foldl_add_part)


text \<open>
  Claim C7. The formatter never fails: for every dictionary of sections and every
  template, \<open>format_resume\<close> returns a document (the subscript in its loop never
  raises), and for the empty dictionary the document is exactly the placeholder.
\<close>

theorem formatter_never_fails:
  "(\<exists>doc. format_resume secs template = Inr doc) \<and>
   format_resume [] template = Inr (u ''# Resume\<newline>\<newline>*No content available*'')"
proof -
  have "\<exists>doc. format_resume secs template = Inr doc"
    by (cases "secs = []") (simp_all add: format_resume_blocks, simp add: format_resume_def)
  moreover have "format_resume [] template = Inr (u ''# Resume\<newline>\<newline>*No content available*'')"
    by (simp add: format_resume_def u_def nl_def)
  ultimately show ?thesis by blast
qed



end
